theory Spec2Isabelle
  imports Complex_Main "HOL-Library.AList"
begin

section \<open>JavaScript values used by the seat-booking scripts\<close>

text \<open>
  Seat numbers are the integers the templates write into \<open>data-seat\<close> and
  \<open>data-seat-number\<close> and the server sends in its JSON arrays.
\<close>

type_synonym seat = int

subsection \<open>Set and DOMTokenList\<close>

text \<open>
  A JavaScript \<open>Set\<close> keeps its elements in insertion order and without duplicates; it
  is modelled by the list of its elements in that order. \<open>Array.from\<close> of the set is the
  list itself and \<open>size\<close> is its length. A \<open>classList\<close> behaves the same way.
\<close>

definition set_has :: "'a \<Rightarrow> 'a list \<Rightarrow> bool" where
  "set_has x s = (x \<in> set s)"

definition set_add :: "'a \<Rightarrow> 'a list \<Rightarrow> 'a list" where
  "set_add x s = (if x \<in> set s then s else s @ [x])"

definition set_delete :: "'a \<Rightarrow> 'a list \<Rightarrow> 'a list" where
  "set_delete x s = removeAll x s"

definition set_size :: "'a list \<Rightarrow> int" where
  "set_size s = int (length s)"

definition set_from :: "'a list \<Rightarrow> 'a list" where
  "set_from xs = foldl (\<lambda>s x. set_add x s) [] xs"

definition add_classes :: "string list \<Rightarrow> string list \<Rightarrow> string list" where
  "add_classes names cl = foldl (\<lambda>s x. set_add x s) cl names"

definition remove_classes :: "string list \<Rightarrow> string list \<Rightarrow> string list" where
  "remove_classes names cl = foldl (\<lambda>s x. set_delete x s) cl names"

subsection \<open>Numbers and strings\<close>

definition digit_char :: "nat \<Rightarrow> char" where
  "digit_char d = ''0123456789'' ! d"

fun string_of_nat :: "nat \<Rightarrow> string" where
  "string_of_nat n =
     (if n < 10 then [digit_char n]
      else string_of_nat (n div 10) @ [digit_char (n mod 10)])"

declare string_of_nat.simps [simp del]

text \<open>The text a template literal or \<open>join\<close> produces for an integer.\<close>

definition number_text :: "int \<Rightarrow> string" where
  "number_text i =
     (if i < 0 then CHR ''-'' # string_of_nat (nat (- i)) else string_of_nat (nat i))"

text \<open>\<open>Array.prototype.join\<close>.\<close>

fun join :: "string \<Rightarrow> string list \<Rightarrow> string" where
  "join sep [] = []"
| "join sep [x] = x"
| "join sep (x # y # ys) = x @ sep @ join sep (y # ys)"

text \<open>
  \<open>!v\<close> for the value of \<open>element?.value\<close>: \<open>undefined\<close> when the element is
  missing (\<open>None\<close>), otherwise the text of the field.
\<close>

definition falsy :: "string option \<Rightarrow> bool" where
  "falsy v = (case v of None \<Rightarrow> True | Some s \<Rightarrow> s = [])"

definition field_text :: "string option \<Rightarrow> string" where
  "field_text v = (case v of None \<Rightarrow> [] | Some s \<Rightarrow> s)"

definition is_space :: "char \<Rightarrow> bool" where
  "is_space c = (c \<in> set [CHR '' '', CHR 0x09, CHR 0x0A, CHR 0x0B, CHR 0x0C, CHR 0x0D])"

definition is_digit :: "char \<Rightarrow> bool" where
  "is_digit c = (c \<in> set ''0123456789'')"

fun index_of :: "'a \<Rightarrow> 'a list \<Rightarrow> nat" where
  "index_of x [] = 0"
| "index_of x (y # ys) = (if x = y then 0 else Suc (index_of x ys))"

definition digits_value :: "string \<Rightarrow> nat" where
  "digits_value ds = foldl (\<lambda>acc c. 10 * acc + index_of c ''0123456789'') 0 ds"

definition split_sign :: "string \<Rightarrow> bool \<times> string" where
  "split_sign s =
     (case s of
        [] \<Rightarrow> (False, [])
      | c # r \<Rightarrow>
          if c = CHR ''-'' then (True, r)
          else if c = CHR ''+'' then (False, r)
          else (False, s))"

definition signed :: "bool \<Rightarrow> nat \<Rightarrow> int" where
  "signed neg n = (if neg then - int n else int n)"

text \<open>
  \<open>parseInt(s)\<close> without a radix, on decimal text: leading white space, an optional
  sign, then the longest run of digits; \<open>None\<close> is \<open>NaN\<close>. (A \<open>0x\<close> prefix, which
  \<open>parseInt\<close> reads as hexadecimal, does not occur in the ids the pages carry.)
\<close>

definition parseInt :: "string \<Rightarrow> int option" where
  "parseInt s =
     (let (neg, u) = split_sign (dropWhile is_space s);
          ds = takeWhile is_digit u
      in if ds = [] then None else Some (signed neg (digits_value ds)))"

text \<open>
  \<open>Number(s)\<close>, the conversion that \<open>==\<close> applies to a string compared with a number,
  on integer decimal text: white space is trimmed, the empty string is 0, anything that
  is not an optionally signed run of digits is \<open>NaN\<close> (\<open>None\<close>).
\<close>

definition trim :: "string \<Rightarrow> string" where
  "trim s = rev (dropWhile is_space (rev (dropWhile is_space s)))"

definition to_number :: "string \<Rightarrow> int option" where
  "to_number s =
     (let t = trim s in
      if t = [] then Some 0
      else (let (neg, u) = split_sign t
            in if u \<noteq> [] \<and> list_all is_digit u then Some (signed neg (digits_value u))
               else None))"

text \<open>\<open>n == s\<close> for a number \<open>n\<close> and a string \<open>s\<close>.\<close>

definition loose_eq :: "int \<Rightarrow> string \<Rightarrow> bool" where
  "loose_eq n s = (to_number s = Some n)"

subsection \<open>Errors, requests and responses\<close>

datatype js_error = Error string | TypeError string | SyntaxError string

fun message :: "js_error \<Rightarrow> string" where
  "message (Error s) = s"
| "message (TypeError s) = s"
| "message (SyntaxError s) = s"

text \<open>
  What a \<open>fetch\<close> followed by \<open>response.json()\<close> can deliver: the promise of
  \<open>fetch\<close> rejects (\<open>NetworkError\<close>, with the engine's message), or a response with a
  status arrives whose body is JSON of the expected shape or fails to parse (\<open>BadJson\<close>,
  with the message of the \<open>SyntaxError\<close>).
\<close>

datatype 'd body = BadJson string | Json 'd

datatype 'd outcome = NetworkError string | Response nat "'d body"

text \<open>\<open>response.ok\<close>\<close>

definition ok :: "nat \<Rightarrow> bool" where
  "ok st = (200 \<le> st \<and> st \<le> 299)"

record booking_data =
  schedule_id :: "int option"
  passenger_name :: string
  passenger_email :: string
  passenger_phone :: string
  seat_numbers :: "seat list"

datatype request =
    GetSeatAvailability string
  | PostCheckSeats string "seat list"
  | PostBookSeats booking_data
  | PostSelectSeat string seat
  | PostDeselectSeat string seat
  | GetSeatStatus string

text \<open>The effects a handler has on the world outside its own fields, in order.\<close>

datatype event =
    Fetch request
  | Alert string
  | Navigate string
  | ConsoleError string js_error
  | Notify string string

text \<open>The JSON bodies of the endpoints.\<close>

record check_data =
  all_available :: bool
  unavailable_seats :: "seat list"

record book_result =
  success :: bool
  booking_id :: int
  error :: "string option"

record hold_reply =
  hold_success :: bool
  hold_error :: "string option"
  hold_message :: "string option"

record hold_info =
  user_id :: int
  username :: string
  expires_at :: "int option"

record status_data =
  booked_seats :: "seat list"
  available_seats :: "seat list"
  temporary_selections :: "(seat \<times> hold_info) list"

text \<open>\<open>a || b\<close> for an optional string \<open>a\<close>: absent and empty are falsy.\<close>

definition or_else :: "string option \<Rightarrow> string \<Rightarrow> string" where
  "or_else a b = (case a of None \<Rightarrow> b | Some s \<Rightarrow> if s = [] then b else s)"

section \<open>SeatBookingManager\<close>

text \<open>
  The fields of the class that its methods read and write after construction. The key
  of a cache entry is the schedule id as the caller passed it: a string from the page,
  or the number \<open>bookSeats\<close> takes from its booking data (\<open>None\<close> is \<open>NaN\<close>).
  (\<open>csrfToken\<close> only fills a request header; \<open>refreshInterval\<close> is the timer handle of
  the availability monitoring.)
\<close>

datatype cache_key = KeyStr string | KeyNum "int option"

record availability_data =
  available_count :: int
  total_seats :: int
  availability_booked_seats :: "seat list"

record cache_entry =
  entry_data :: availability_data
  entry_timestamp :: int

record SeatBookingManager =
  availabilityCache :: "(cache_key \<times> cache_entry) list"
  bookingInProgress :: bool

definition SeatBookingManager_new :: SeatBookingManager where
  "SeatBookingManager_new = \<lparr>availabilityCache = [], bookingInProgress = False\<rparr>"

text \<open>
  A callback is optional and may throw: it is a function to the error it throws, if any.
\<close>

type_synonym 'd callback = "('d \<Rightarrow> js_error option) option"

definition run_callback :: "'d callback \<Rightarrow> 'd \<Rightarrow> js_error option" where
  "run_callback cb d = (case cb of None \<Rightarrow> None | Some f \<Rightarrow> f d)"

text \<open>
  \<open>checkSeatAvailability\<close> and \<open>checkSpecificSeats\<close> each issue one request; the part
  after the \<open>await\<close> is the function of the outcome below. \<open>now\<close> is \<open>Date.now()\<close>.
\<close>

definition checkSeatAvailability_settle ::
  "SeatBookingManager \<Rightarrow> string \<Rightarrow> availability_data callback \<Rightarrow> int \<Rightarrow>
     availability_data outcome \<Rightarrow> SeatBookingManager \<times> availability_data option \<times> event list" where
  "checkSeatAvailability_settle m scheduleId callback now outcome =
     (let failed = (\<lambda>m' e. (m', None, [ConsoleError ''Error checking seat availability:'' e]))
      in case outcome of
           NetworkError msg \<Rightarrow> failed m (TypeError msg)
         | Response st b \<Rightarrow>
             if \<not> ok st then failed m (Error (''HTTP error! status: '' @ number_text (int st)))
             else (case b of
                     BadJson msg \<Rightarrow> failed m (SyntaxError msg)
                   | Json d \<Rightarrow>
                       (let m' = m\<lparr>availabilityCache :=
                                   AList.update (KeyStr scheduleId)
                                     \<lparr>entry_data = d, entry_timestamp = now\<rparr>
                                     (availabilityCache m)\<rparr>
                        in case run_callback callback d of
                             None \<Rightarrow> (m', Some d, [])
                           | Some e \<Rightarrow> failed m' e)))"

definition checkSpecificSeats_settle ::
  "check_data callback \<Rightarrow> check_data outcome \<Rightarrow> check_data option \<times> event list" where
  "checkSpecificSeats_settle callback outcome =
     (let failed = (\<lambda>e. (None, [ConsoleError ''Error checking specific seats:'' e]))
      in case outcome of
           NetworkError msg \<Rightarrow> failed (TypeError msg)
         | Response st b \<Rightarrow>
             if \<not> ok st then failed (Error (''HTTP error! status: '' @ number_text (int st)))
             else (case b of
                     BadJson msg \<Rightarrow> failed (SyntaxError msg)
                   | Json d \<Rightarrow>
                       (case run_callback callback d of
                          None \<Rightarrow> (Some d, [])
                        | Some e \<Rightarrow> failed e)))"

definition checkSpecificSeats ::
  "string \<Rightarrow> seat list \<Rightarrow> check_data callback \<Rightarrow> check_data outcome \<Rightarrow>
     check_data option \<times> event list" where
  "checkSpecificSeats scheduleId seatNumbers callback outcome =
     (let (r, evs) = checkSpecificSeats_settle callback outcome
      in (r, Fetch (PostCheckSeats scheduleId seatNumbers) # evs))"

text \<open>
  \<open>bookSeats\<close> runs in two turns. The first is everything up to the \<open>await fetch\<close>: the
  guard, which throws outside the \<open>try\<close>, and the flag. The second is everything after
  the response: the body of the \<open>try\<close>, the \<open>catch\<close> that logs and rethrows, and the
  \<open>finally\<close>.
\<close>

definition busy_message :: string where
  "busy_message = ''Booking already in progress. Please wait.''"

definition bookSeats_begin ::
  "SeatBookingManager \<Rightarrow> booking_data \<Rightarrow> SeatBookingManager \<times> (js_error + request)" where
  "bookSeats_begin m bookingData =
     (if bookingInProgress m then (m, Inl (Error busy_message))
      else (m\<lparr>bookingInProgress := True\<rparr>, Inr (PostBookSeats bookingData)))"

definition bookSeats_try ::
  "SeatBookingManager \<Rightarrow> booking_data \<Rightarrow> book_result callback \<Rightarrow> book_result outcome \<Rightarrow>
     SeatBookingManager \<times> (js_error + book_result)" where
  "bookSeats_try m bookingData callback outcome =
     (case outcome of
        NetworkError msg \<Rightarrow> (m, Inl (TypeError msg))
      | Response st b \<Rightarrow>
          if \<not> ok st then
            (case b of
               BadJson msg \<Rightarrow> (m, Inl (SyntaxError msg))
             | Json errorData \<Rightarrow> (m, Inl (Error (or_else (error errorData) ''Booking failed''))))
          else
            (case b of
               BadJson msg \<Rightarrow> (m, Inl (SyntaxError msg))
             | Json d \<Rightarrow>
                 (let m' = m\<lparr>availabilityCache :=
                             AList.delete (KeyNum (schedule_id bookingData)) (availabilityCache m)\<rparr>
                  in case run_callback callback d of
                       None \<Rightarrow> (m', Inr d)
                     | Some e \<Rightarrow> (m', Inl e))))"

definition bookSeats_settle ::
  "SeatBookingManager \<Rightarrow> booking_data \<Rightarrow> book_result callback \<Rightarrow> book_result outcome \<Rightarrow>
     SeatBookingManager \<times> (js_error + book_result) \<times> event list" where
  "bookSeats_settle m bookingData callback outcome =
     (let (m', r) = bookSeats_try m bookingData callback outcome;
          evs = (case r of Inl e \<Rightarrow> [ConsoleError ''Error booking seats:'' e] | Inr d \<Rightarrow> [])
      in (m'\<lparr>bookingInProgress := False\<rparr>, r, evs))"

text \<open>A call of \<open>bookSeats\<close> during which nothing else runs on the manager.\<close>

definition bookSeats ::
  "SeatBookingManager \<Rightarrow> booking_data \<Rightarrow> book_result callback \<Rightarrow> book_result outcome \<Rightarrow>
     SeatBookingManager \<times> (js_error + book_result) \<times> event list" where
  "bookSeats m bookingData callback outcome =
     (case bookSeats_begin m bookingData of
        (m1, Inl e) \<Rightarrow> (m1, Inl e, [])
      | (m1, Inr req) \<Rightarrow>
          (let (m2, r, evs) = bookSeats_settle m1 bookingData callback outcome
           in (m2, r, Fetch req # evs)))"

section \<open>SeatSelectionHandler\<close>

text \<open>
  The handler with the parts of its container it reads and writes: the text of the
  \<open>.seat-selection-display\<close> element (\<open>None\<close> when the container has none) and the
  value of the \<open>schedule_id\<close> field inside the container (\<open>None\<close> when it has none).
\<close>

record SeatSelectionHandler =
  maxSeats :: int
  selectedSeats :: "seat list"
  bookingManager :: SeatBookingManager
  display :: "string option"
  container_schedule_id :: "string option"

record seat_element =
  dataset_seat :: seat
  element_classList :: "string list"

record form_values =
  schedule_id_value :: "string option"
  name_value :: "string option"
  email_value :: "string option"
  phone_value :: "string option"

definition updateSelectionDisplay :: "SeatSelectionHandler \<Rightarrow> SeatSelectionHandler" where
  "updateSelectionDisplay h =
     (case display h of
        None \<Rightarrow> h
      | Some old \<Rightarrow>
          (let selectedArray = sort (selectedSeats h)
           in h\<lparr>display := Some (''Selected seats: '' @ join '', '' (map number_text selectedArray)
                   @ '' ('' @ number_text (set_size (selectedSeats h)) @ ''/''
                   @ number_text (maxSeats h) @ '')'')\<rparr>))"

text \<open>The constructor; \<open>maxSeats\<close> defaults to 4.\<close>

definition SeatSelectionHandler_new ::
  "string option \<Rightarrow> string option \<Rightarrow> int option \<Rightarrow> SeatSelectionHandler" where
  "SeatSelectionHandler_new display_text container_id maxSeats_arg =
     updateSelectionDisplay
       \<lparr>maxSeats = (case maxSeats_arg of None \<Rightarrow> 4 | Some n \<Rightarrow> n),
        selectedSeats = [],
        bookingManager = SeatBookingManager_new,
        display = display_text,
        container_schedule_id = container_id\<rparr>"

definition toggleSeat ::
  "SeatSelectionHandler \<Rightarrow> seat_element \<Rightarrow> SeatSelectionHandler \<times> seat_element \<times> event list" where
  "toggleSeat h seatElement =
     (let seatNumber = dataset_seat seatElement in
      if set_has seatNumber (selectedSeats h) then
        (updateSelectionDisplay (h\<lparr>selectedSeats := set_delete seatNumber (selectedSeats h)\<rparr>),
         seatElement\<lparr>element_classList := set_delete ''selected'' (element_classList seatElement)\<rparr>,
         [])
      else if set_size (selectedSeats h) \<ge> maxSeats h then
        (h, seatElement,
         [Alert (''You can only select up to '' @ number_text (maxSeats h) @ '' seats.'')])
      else
        (updateSelectionDisplay (h\<lparr>selectedSeats := set_add seatNumber (selectedSeats h)\<rparr>),
         seatElement\<lparr>element_classList := set_add ''selected'' (element_classList seatElement)\<rparr>,
         []))"

text \<open>
  \<open>refreshSeatDisplay\<close> starts \<open>checkSeatAvailability\<close> without awaiting it, when the
  container holds a schedule id; the response is handled in a later turn
  (\<open>checkSeatAvailability_settle\<close>).
\<close>

definition refreshSeatDisplay :: "SeatSelectionHandler \<Rightarrow> event list" where
  "refreshSeatDisplay h =
     (if falsy (container_schedule_id h) then []
      else [Fetch (GetSeatAvailability (field_text (container_schedule_id h)))])"

text \<open>The \<open>catch\<close> block of \<open>handleFormSubmission\<close>.\<close>

definition submission_failed :: "SeatSelectionHandler \<Rightarrow> js_error \<Rightarrow> event list" where
  "submission_failed h e = Alert (''Booking failed: '' @ message e) # refreshSeatDisplay h"

text \<open>The \<open>TypeError\<close> of reading \<open>all_available\<close> from \<open>null\<close>, with V8's message.\<close>

definition null_check_error :: js_error where
  "null_check_error =
     TypeError (''Cannot read properties of null (reading '' @ [CHR 0x27] @ ''all_available''
                @ [CHR 0x27] @ '')'')"

text \<open>
  \<open>handleFormSubmission\<close> runs in three turns, separated by its two \<open>await\<close>s: up to the
  request of \<open>checkSpecificSeats\<close>; from the answer of the check to the request of
  \<open>bookSeats\<close>; and from the answer of the booking to the end. A submission that has
  not finished waits for one of the two answers. The arrival of a response, the reading
  of its body and the resumption of the caller are run as one turn: between them the
  methods write only \<open>bookingInProgress\<close> and the cache, which the resumed caller does
  not read.
\<close>

datatype submission = Finished | AwaitingCheck form_values | AwaitingBooking booking_data


text \<open>The object \<open>bookingData\<close> that \<open>handleFormSubmission\<close> builds.\<close>

definition booking_request :: "form_values \<Rightarrow> seat list \<Rightarrow> booking_data" where
  "booking_request form seats =
     \<lparr>schedule_id = parseInt (field_text (schedule_id_value form)),
      passenger_name = field_text (name_value form),
      passenger_email = field_text (email_value form),
      passenger_phone = field_text (phone_value form),
      seat_numbers = seats\<rparr>"

definition handleFormSubmission_start ::
  "SeatSelectionHandler \<Rightarrow> form_values \<Rightarrow> submission \<times> event list" where
  "handleFormSubmission_start h form =
     (if falsy (schedule_id_value form) \<or> falsy (name_value form)
         \<or> falsy (email_value form) \<or> falsy (phone_value form) then
        (Finished, [Alert ''Please fill in all required fields.''])
      else if set_size (selectedSeats h) = 0 then
        (Finished, [Alert ''Please select at least one seat.''])
      else
        (AwaitingCheck form,
         [Fetch (PostCheckSeats (field_text (schedule_id_value form)) (selectedSeats h))]))"

definition handleFormSubmission_checked ::
  "SeatSelectionHandler \<Rightarrow> form_values \<Rightarrow> check_data outcome \<Rightarrow>
     SeatSelectionHandler \<times> submission \<times> event list" where
  "handleFormSubmission_checked h form check_outcome =
     (let (seatCheck, evs) = checkSpecificSeats_settle None check_outcome
      in case seatCheck of
           None \<Rightarrow> (h, Finished, evs @ submission_failed h null_check_error)
         | Some chk \<Rightarrow>
             if \<not> all_available chk then
               (h, Finished,
                evs @ [Alert (''Seats '' @ join '', '' (map number_text (unavailable_seats chk))
                              @ '' are no longer available. Please select different seats.'')]
                    @ refreshSeatDisplay h)
             else
               (let bookingData = booking_request form (selectedSeats h)
                in case bookSeats_begin (bookingManager h) bookingData of
                     (m, Inl e) \<Rightarrow>
                       (h\<lparr>bookingManager := m\<rparr>, Finished,
                        evs @ submission_failed (h\<lparr>bookingManager := m\<rparr>) e)
                   | (m, Inr req) \<Rightarrow>
                       (h\<lparr>bookingManager := m\<rparr>, AwaitingBooking bookingData,
                        evs @ [Fetch req])))"

definition handleFormSubmission_booked ::
  "SeatSelectionHandler \<Rightarrow> booking_data \<Rightarrow> book_result outcome \<Rightarrow>
     SeatSelectionHandler \<times> event list" where
  "handleFormSubmission_booked h bookingData book_outcome =
     (let (m, r, evs) = bookSeats_settle (bookingManager h) bookingData None book_outcome;
          h' = h\<lparr>bookingManager := m\<rparr>
      in case r of
           Inl e \<Rightarrow> (h', evs @ submission_failed h' e)
         | Inr result \<Rightarrow>
             (h', evs @ (if success result
                         then [Navigate (''/payment/'' @ number_text (booking_id result) @ ''/'')]
                         else [])))"

text \<open>
  A submission during which nothing else runs on the handler: the three turns in a row,
  given what the two requests will be answered.
\<close>

definition handleFormSubmission ::
  "SeatSelectionHandler \<Rightarrow> form_values \<Rightarrow> check_data outcome \<Rightarrow> book_result outcome \<Rightarrow>
     SeatSelectionHandler \<times> event list" where
  "handleFormSubmission h form check_outcome book_outcome =
     (case handleFormSubmission_start h form of
        (AwaitingCheck f, evs1) \<Rightarrow>
          (case handleFormSubmission_checked h f check_outcome of
             (h2, AwaitingBooking bookingData, evs2) \<Rightarrow>
               (let (h3, evs3) = handleFormSubmission_booked h2 bookingData book_outcome
                in (h3, evs1 @ evs2 @ evs3))
           | (h2, other, evs2) \<Rightarrow> (h2, evs1 @ evs2))
      | (other, evs1) \<Rightarrow> (h, evs1))"

subsection \<open>Interleaved turns on one page\<close>







fun is_booking_call :: "event \<Rightarrow> bool" where
  "is_booking_call (Fetch (PostBookSeats bookingData)) = True"
| "is_booking_call other = False"


section \<open>RealTimeSeatManager\<close>

text \<open>
  The fields of the class that its seat methods read and write; the set of the user's
  own selections is \<open>selectedSeats\<close> in the source, and \<open>heldSeats\<close> here, where the
  name is taken by the field of \<open>SeatSelectionHandler\<close>. \<open>tempSelections\<close> is a
  \<open>Map\<close>: the list of its entries in insertion order.
\<close>

record RealTimeSeatManager =
  scheduleId :: string
  userId :: string
  heldSeats :: "seat list"
  tempSelections :: "(seat \<times> hold_info) list"
  bookedSeats :: "seat list"
  availableSeats :: "seat list"

definition RealTimeSeatManager_new :: "string \<Rightarrow> string \<Rightarrow> RealTimeSeatManager" where
  "RealTimeSeatManager_new schedule user =
     \<lparr>scheduleId = schedule, userId = user, heldSeats = [], tempSelections = [],
      bookedSeats = [], availableSeats = []\<rparr>"

text \<open>
  A \<open>.seat[data-seat-number]\<close> element: its seat number, its classes, the three
  \<open>dataset\<close> entries the manager writes (\<open>None\<close> when absent) and its \<open>title\<close>.
\<close>

record seat_node =
  seatNumber :: seat
  classList :: "string list"
  status :: "string option"
  dataset_userId :: "string option"
  dataset_username :: "string option"
  title :: string

text \<open>
  \<open>getTimeUntilExpiry\<close>: \<open>now\<close> is the time value of \<open>new Date()\<close> in milliseconds
  and the argument is the time value of \<open>new Date(expiresAt)\<close>, \<open>None\<close> for an invalid
  date, whose difference is \<open>NaN\<close>. The differences of time values are integers, for
  which the floating-point quotient has the ceiling of the exact one.
\<close>

definition minutes_label :: "int \<Rightarrow> string" where
  "minutes_label diffMins =
     number_text diffMins @ '' min'' @ (if diffMins \<noteq> 1 then ''s'' else [])"

definition getTimeUntilExpiry :: "int \<Rightarrow> int option \<Rightarrow> string" where
  "getTimeUntilExpiry now expiry =
     (case expiry of
        None \<Rightarrow> ''NaN mins''
      | Some e \<Rightarrow>
          (let diffMs = e - now in
           if diffMs \<le> 0 then ''expired''
           else minutes_label \<lceil>real_of_int diffMs / (1000 * 60)\<rceil>))"

text \<open>
  The countdown as the specification words it in its component design, with the
  minutes floor-divided, for comparison with \<open>getTimeUntilExpiry\<close>.
\<close>

definition countdown_floor_spec :: "int \<Rightarrow> int \<Rightarrow> string" where
  "countdown_floor_spec now e =
     (if e - now \<le> 0 then ''expired'' else minutes_label ((e - now) div 60000))"

text \<open>The body of the \<open>forEach\<close> of \<open>updateSeatDisplay\<close>, for one seat.\<close>

definition render_seat :: "RealTimeSeatManager \<Rightarrow> int \<Rightarrow> seat_node \<Rightarrow> seat_node" where
  "render_seat m now node =
     (let cl = remove_classes [''hover:bg-gray-300'', ''cursor-not-allowed'', ''cursor-pointer'']
                 (remove_classes [''bg-gray-200'', ''bg-red-400'', ''bg-yellow-400'',
                                  ''bg-green-500'', ''text-white''] (classList node));
          reset = node\<lparr>classList := cl, status := Some ''available'',
                       dataset_userId := None, dataset_username := None\<rparr>
      in if set_has (seatNumber node) (bookedSeats m) then
           reset\<lparr>classList := add_classes [''bg-red-400'', ''text-white'', ''cursor-not-allowed''] cl,
                 status := Some ''booked'',
                 title := ''Booked''\<rparr>
         else
           (case map_of (tempSelections m) (seatNumber node) of
              Some selection \<Rightarrow>
                (let cl' = add_classes [''bg-yellow-400'', ''text-white'', ''cursor-not-allowed''] cl;
                     temp = reset\<lparr>classList := cl', status := Some ''temporary'',
                                  dataset_userId := Some (number_text (user_id selection)),
                                  dataset_username := Some (username selection)\<rparr>
                 in if loose_eq (user_id selection) (userId m) then
                      temp\<lparr>classList := set_add ''cursor-pointer''
                                           (set_add ''bg-green-500'' (set_delete ''bg-yellow-400'' cl')),
                           title := ''Your selection (expires in ''
                                    @ getTimeUntilExpiry now (expires_at selection) @ '')''\<rparr>
                    else
                      temp\<lparr>title := ''Temporarily selected by '' @ username selection
                                    @ '' (expires in ''
                                    @ getTimeUntilExpiry now (expires_at selection) @ '')''\<rparr>)
            | None \<Rightarrow>
                reset\<lparr>classList := add_classes [''bg-gray-200'', ''hover:bg-gray-300'', ''cursor-pointer''] cl,
                      title := ''Available''\<rparr>))"

text \<open>
  \<open>updateSeatDisplay\<close> over the seat elements of the document (the legend it also
  completes is not part of them).
\<close>

definition updateSeatDisplay ::
  "RealTimeSeatManager \<Rightarrow> int \<Rightarrow> seat_node list \<Rightarrow> seat_node list" where
  "updateSeatDisplay m now nodes = map (render_seat m now) nodes"

definition fetchSeatStatus ::
  "RealTimeSeatManager \<Rightarrow> int \<Rightarrow> seat_node list \<Rightarrow> status_data outcome \<Rightarrow>
     RealTimeSeatManager \<times> seat_node list \<times> event list" where
  "fetchSeatStatus m now nodes outcome =
     (let req = Fetch (GetSeatStatus (scheduleId m));
          failed = (\<lambda>e. (m, nodes, [req, ConsoleError ''Error fetching seat status:'' e]))
      in case outcome of
           NetworkError msg \<Rightarrow> failed (TypeError msg)
         | Response st b \<Rightarrow>
             if \<not> ok st then failed (Error (''HTTP '' @ number_text (int st)))
             else (case b of
                     BadJson msg \<Rightarrow> failed (SyntaxError msg)
                   | Json d \<Rightarrow>
                       (let m' = m\<lparr>bookedSeats := set_from (booked_seats d),
                                    availableSeats := set_from (available_seats d),
                                    tempSelections :=
                                      foldl (\<lambda>mp (seatNum, info). AList.update seatNum info mp) []
                                        (temporary_selections d)\<rparr>
                        in (m', updateSeatDisplay m' now nodes, [req]))))"

text \<open>
  \<open>selectSeat\<close> and \<open>deselectSeat\<close>, each with the answer to its own request and the
  answer to the \<open>fetchSeatStatus\<close> it awaits after a success. Neither looks at
  \<open>response.ok\<close>.
\<close>

definition selectSeat ::
  "RealTimeSeatManager \<Rightarrow> int \<Rightarrow> seat_node list \<Rightarrow> seat \<Rightarrow> hold_reply outcome \<Rightarrow>
     status_data outcome \<Rightarrow> RealTimeSeatManager \<times> seat_node list \<times> event list" where
  "selectSeat m now nodes seatNum outcome status_outcome =
     (let req = Fetch (PostSelectSeat (scheduleId m) seatNum);
          failed = (\<lambda>e. (m, nodes,
                     [req, ConsoleError ''Error selecting seat:'' e,
                      Notify ''Failed to select seat. Please try again.'' ''error'']))
      in case outcome of
           NetworkError msg \<Rightarrow> failed (TypeError msg)
         | Response st b \<Rightarrow>
             (case b of
                BadJson msg \<Rightarrow> failed (SyntaxError msg)
              | Json d \<Rightarrow>
                  if hold_success d then
                    (let m1 = m\<lparr>heldSeats := set_add seatNum (heldSeats m)\<rparr>;
                         (m2, nodes2, evs) = fetchSeatStatus m1 now nodes status_outcome
                     in (m2, nodes2,
                         req # evs @ [Notify (''Seat '' @ number_text seatNum
                                              @ '' temporarily selected'') ''success'']))
                  else
                    (m, nodes,
                     [req, Notify (or_else (hold_error d) ''Failed to select seat'') ''error''])))"

definition deselectSeat ::
  "RealTimeSeatManager \<Rightarrow> int \<Rightarrow> seat_node list \<Rightarrow> seat \<Rightarrow> hold_reply outcome \<Rightarrow>
     status_data outcome \<Rightarrow> RealTimeSeatManager \<times> seat_node list \<times> event list" where
  "deselectSeat m now nodes seatNum outcome status_outcome =
     (let req = Fetch (PostDeselectSeat (scheduleId m) seatNum);
          failed = (\<lambda>e. (m, nodes,
                     [req, ConsoleError ''Error deselecting seat:'' e,
                      Notify ''Failed to deselect seat. Please try again.'' ''error'']))
      in case outcome of
           NetworkError msg \<Rightarrow> failed (TypeError msg)
         | Response st b \<Rightarrow>
             (case b of
                BadJson msg \<Rightarrow> failed (SyntaxError msg)
              | Json d \<Rightarrow>
                  if hold_success d then
                    (let m1 = m\<lparr>heldSeats := set_delete seatNum (heldSeats m)\<rparr>;
                         (m2, nodes2, evs) = fetchSeatStatus m1 now nodes status_outcome
                     in (m2, nodes2,
                         req # evs @ [Notify (''Seat '' @ number_text seatNum
                                              @ '' deselected'') ''success'']))
                  else
                    (m, nodes,
                     [req, Notify (or_else (hold_message d) ''Failed to deselect seat'') ''error''])))"

text \<open>
  The server confirms a hold request: the body parses and its \<open>success\<close> is true,
  which is what both methods test.
\<close>

fun reports_success :: "hold_reply outcome \<Rightarrow> bool" where
  "reports_success (Response st (Json d)) = hold_success d"
| "reports_success other = False"

text \<open>\<open>handleSeatClick\<close> on a seat element, as the last render left it.\<close>

definition handleSeatClick ::
  "RealTimeSeatManager \<Rightarrow> int \<Rightarrow> seat_node list \<Rightarrow> seat_node \<Rightarrow> hold_reply outcome \<Rightarrow>
     status_data outcome \<Rightarrow> RealTimeSeatManager \<times> seat_node list \<times> event list" where
  "handleSeatClick m now nodes node outcome status_outcome =
     (if status node = Some ''booked'' then (m, nodes, [])
      else if status node = Some ''temporary'' \<and> dataset_userId node = Some (userId m) then
        deselectSeat m now nodes (seatNumber node) outcome status_outcome
      else if status node = Some ''available'' then
        selectSeat m now nodes (seatNumber node) outcome status_outcome
      else (m, nodes, []))"

subsection \<open>Sequences of selections that the server confirms\<close>

datatype seat_op = Select seat | Deselect seat

definition confirmed :: "hold_reply outcome" where
  "confirmed = Response 200 (Json \<lparr>hold_success = True, hold_error = None, hold_message = None\<rparr>)"

text \<open>
  One operation whose request the server confirms; the status request that follows
  is answered with \<open>status_outcome\<close>.
\<close>

definition confirmed_op ::
  "int \<Rightarrow> status_data outcome \<Rightarrow> RealTimeSeatManager \<times> seat_node list \<times> event list \<Rightarrow> seat_op \<Rightarrow>
     RealTimeSeatManager \<times> seat_node list \<times> event list" where
  "confirmed_op now status_outcome st op =
     (case st of
        (m, nodes, evs) \<Rightarrow>
          (let (m', nodes', evs') =
                 (case op of
                    Select n \<Rightarrow> selectSeat m now nodes n confirmed status_outcome
                  | Deselect n \<Rightarrow> deselectSeat m now nodes n confirmed status_outcome)
           in (m', nodes', evs @ evs')))"

definition confirmed_run ::
  "int \<Rightarrow> status_data outcome \<Rightarrow> RealTimeSeatManager \<Rightarrow> seat_op list \<Rightarrow>
     RealTimeSeatManager \<times> seat_node list \<times> event list" where
  "confirmed_run now status_outcome m ops = foldl (confirmed_op now status_outcome) (m, [], []) ops"

text \<open>A sequence of clicks on the seats of the booking form.\<close>

definition toggle_all :: "SeatSelectionHandler \<Rightarrow> seat_element list \<Rightarrow> SeatSelectionHandler" where
  "toggle_all h els = foldl (\<lambda>h' el. fst (toggleSeat h' el)) h els"

fun is_fetch :: "event \<Rightarrow> bool" where
  "is_fetch (Fetch req) = True"
| "is_fetch other = False"

section \<open>Properties of the countdown\<close>

lemma string_of_nat_2: "string_of_nat 2 = ''2''"
  by (simp add: string_of_nat.simps digit_char_def)

lemma ceiling_bounds:
  "60000 * ((d + 59999) div 60000 - 1) < d \<and> d \<le> 60000 * ((d + 59999) div (60000::int))"
proof -
  define q where "q = (d + 59999) div 60000"
  define r where "r = (d + 59999) mod 60000"
  have r: "0 \<le> r" "r < 60000" by (simp_all add: r_def)
  have "d + 59999 = 60000 * q + r"
    unfolding q_def r_def by (simp add: mult_div_mod_eq)
  with r have "60000 * (q - 1) < d \<and> d \<le> 60000 * q"
    by (simp add: algebra_simps)
  then show ?thesis by (simp add: q_def)
qed

lemma neg_div_ceiling: "- (- d div 60000) = (d + 59999) div (60000::int)"
proof -
  define q where "q = (d + 59999) div 60000"
  define r where "r = (d + 59999) mod 60000"
  have r: "0 \<le> r" "r < 60000" by (simp_all add: r_def)
  have "d + 59999 = 60000 * q + r"
    unfolding q_def r_def by (simp add: mult_div_mod_eq)
  then have "- d = 60000 * (- q) + (59999 - r)" by linarith
  moreover have "0 \<le> 59999 - r" "59999 - r < 60000" using r by linarith+
  ultimately have "- d div 60000 = - q"
    by (rule int_div_pos_eq)
  then show ?thesis by (simp add: q_def)
qed

lemma ceiling_minutes: "\<lceil>real_of_int d / (1000 * 60)\<rceil> = (d + 59999) div 60000"
proof -
  have "\<lceil>real_of_int d / real_of_int 60000\<rceil> = - (- d div 60000)"
    by (rule ceiling_divide_eq_div)
  then show ?thesis by (simp add: neg_div_ceiling)
qed

text \<open>
  C8, as the code has it. The countdown text of a hold is computed from
  \<open>expiresAt - now\<close> at render time: it is "expired" when the difference is at most 0,
  and otherwise it names the whole minutes obtained by rounding the difference up (not
  down): the least number of minutes that covers the remaining milliseconds.
\<close>

theorem countdown_ceiling_minutes:
  "getTimeUntilExpiry now (Some e) =
     (if e - now \<le> 0 then ''expired'' else minutes_label ((e - now + 59999) div 60000))
   \<and> (0 < e - now \<longrightarrow>
        60000 * ((e - now + 59999) div 60000 - 1) < e - now
        \<and> e - now \<le> 60000 * ((e - now + 59999) div 60000))"
proof
  show "getTimeUntilExpiry now (Some e) =
     (if e - now \<le> 0 then ''expired'' else minutes_label ((e - now + 59999) div 60000))"
    using ceiling_minutes [of "e - now"]
    by (simp add: getTimeUntilExpiry_def Let_def)
  show "0 < e - now \<longrightarrow>
        60000 * ((e - now + 59999) div 60000 - 1) < e - now
        \<and> e - now \<le> 60000 * ((e - now + 59999) div 60000)"
    using ceiling_bounds [of "e - now"] by simp
qed

theorem countdown_ceiling_minutes_witness:
  "(0::int) < 1090000 - 1000000 \<and> getTimeUntilExpiry 1000000 (Some 1090000) = minutes_label 2
   \<and> 60000 * (2 - 1) < (1090000::int) - 1000000 \<and> (1090000::int) - 1000000 \<le> 60000 * 2"
  using countdown_ceiling_minutes [where now = 1000000 and e = 1090000] by simp

text \<open>
  C8, as the claim words it, fails 90 seconds before the expiry: floor division gives
  one minute, the code shows two.
\<close>

theorem countdown_floor_counterexample:
  "getTimeUntilExpiry 1000000 (Some 1090000) = ''2 mins''
   \<and> countdown_floor_spec 1000000 1090000 = ''1 min''
   \<and> getTimeUntilExpiry 1000000 (Some 1090000) \<noteq> countdown_floor_spec 1000000 1090000"
  by (simp add: getTimeUntilExpiry_def countdown_floor_spec_def minutes_label_def number_text_def
        string_of_nat.simps digit_char_def)

text \<open>
  C9. The countdown of an expiry in the past, or equal to now, is "expired"; the
  countdown of an expiry exactly 90 seconds ahead is "2 mins".
\<close>

theorem countdown_expired_and_ninety_seconds:
  "(e \<le> now \<longrightarrow> getTimeUntilExpiry now (Some e) = ''expired'')
   \<and> getTimeUntilExpiry now (Some (now + 90000)) = ''2 mins''"
  by (simp add: getTimeUntilExpiry_def minutes_label_def number_text_def string_of_nat_2)

theorem countdown_expired_and_ninety_seconds_witness:
  "(400::int) \<le> 1000 \<and> getTimeUntilExpiry 1000 (Some 400) = ''expired''
   \<and> getTimeUntilExpiry 1000 (Some 91000) = ''2 mins''"
  using countdown_expired_and_ninety_seconds [where now = 1000 and e = 400] by simp

section \<open>Properties of the booking manager\<close>

lemma bookSeats_settle_flag:
  "bookingInProgress (fst (bookSeats_settle m bd cb outcome)) = False"
  by (simp add: bookSeats_settle_def split: prod.splits)

lemma bookSeats_begin_busy:
  "bookingInProgress m \<Longrightarrow> bookSeats_begin m bd = (m, Inl (Error busy_message))"
  by (simp add: bookSeats_begin_def)

lemma bookSeats_begin_idle:
  "\<not> bookingInProgress m \<Longrightarrow>
     bookSeats_begin m bd = (m\<lparr>bookingInProgress := True\<rparr>, Inr (PostBookSeats bd))"
  by (simp add: bookSeats_begin_def)

text \<open>
  C10. Every completed call of \<open>bookSeats\<close> leaves \<open>bookingInProgress\<close> false: the
  second turn does so whatever the response was (a result, a non-2xx status, a body that
  does not parse, a transport error, a callback that throws), hence so does a whole call
  that started on an idle manager. A call rejected as busy leaves the manager as it
  found it. After a completed call the next call passes the guard and sends its request.
\<close>

theorem bookSeats_releases_flag:
  "bookingInProgress (fst (bookSeats_settle m bd cb outcome)) = False
   \<and> (\<not> bookingInProgress m \<longrightarrow> bookingInProgress (fst (bookSeats m bd cb outcome)) = False)
   \<and> (bookingInProgress m \<longrightarrow> bookSeats m bd cb outcome = (m, Inl (Error busy_message), []))
   \<and> snd (bookSeats_begin (fst (bookSeats_settle m bd cb outcome)) bd') = Inr (PostBookSeats bd')
   \<and> (\<not> bookingInProgress m \<longrightarrow>
        snd (bookSeats_begin (fst (bookSeats m bd cb outcome)) bd') = Inr (PostBookSeats bd'))"
proof (intro conjI impI)
  show "bookingInProgress (fst (bookSeats_settle m bd cb outcome)) = False"
    by (rule bookSeats_settle_flag)
  show "bookingInProgress (fst (bookSeats m bd cb outcome)) = False" if "\<not> bookingInProgress m"
    using that bookSeats_settle_flag [of "m\<lparr>bookingInProgress := True\<rparr>" bd cb outcome]
    by (auto simp: bookSeats_def bookSeats_begin_idle split: prod.splits)
  then show "snd (bookSeats_begin (fst (bookSeats m bd cb outcome)) bd') = Inr (PostBookSeats bd')"
    if "\<not> bookingInProgress m"
    using that by (simp add: bookSeats_begin_def)
  show "bookSeats m bd cb outcome = (m, Inl (Error busy_message), [])" if "bookingInProgress m"
    using that by (simp add: bookSeats_def bookSeats_begin_busy)
  show "snd (bookSeats_begin (fst (bookSeats_settle m bd cb outcome)) bd') = Inr (PostBookSeats bd')"
    using bookSeats_settle_flag [of m bd cb outcome] by (simp add: bookSeats_begin_def)
qed

theorem bookSeats_releases_flag_witness:
  "bookingInProgress (fst (bookSeats SeatBookingManager_new
       \<lparr>schedule_id = Some 12, passenger_name = ''Ann'', passenger_email = ''ann@example.org'',
        passenger_phone = ''555'', seat_numbers = [3, 5]\<rparr> None
       (Response 409 (Json \<lparr>success = False, booking_id = 0, error = Some ''Seat 5 is taken''\<rparr>))))
     = False
   \<and> bookSeats (SeatBookingManager_new\<lparr>bookingInProgress := True\<rparr>)
       \<lparr>schedule_id = Some 12, passenger_name = ''Ann'', passenger_email = ''ann@example.org'',
        passenger_phone = ''555'', seat_numbers = [3, 5]\<rparr> None
       (NetworkError ''Failed to fetch'')
     = (SeatBookingManager_new\<lparr>bookingInProgress := True\<rparr>, Inl (Error busy_message), [])"
  using bookSeats_releases_flag
    [where m = SeatBookingManager_new
       and bd = "\<lparr>schedule_id = Some 12, passenger_name = ''Ann'',
                   passenger_email = ''ann@example.org'', passenger_phone = ''555'',
                   seat_numbers = [3, 5]\<rparr>"
       and cb = None
       and outcome = "Response 409 (Json \<lparr>success = False, booking_id = 0,
                                            error = Some ''Seat 5 is taken''\<rparr>)"]
    bookSeats_releases_flag
    [where m = "SeatBookingManager_new\<lparr>bookingInProgress := True\<rparr>"
       and bd = "\<lparr>schedule_id = Some 12, passenger_name = ''Ann'',
                   passenger_email = ''ann@example.org'', passenger_phone = ''555'',
                   seat_numbers = [3, 5]\<rparr>"
       and cb = None
       and outcome = "NetworkError ''Failed to fetch''"]
  by (simp add: SeatBookingManager_new_def)

section \<open>Properties of the form submission\<close>

lemma start_valid:
  "\<not> falsy (schedule_id_value form) \<Longrightarrow> \<not> falsy (name_value form) \<Longrightarrow>
   \<not> falsy (email_value form) \<Longrightarrow> \<not> falsy (phone_value form) \<Longrightarrow> selectedSeats h \<noteq> [] \<Longrightarrow>
   handleFormSubmission_start h form =
     (AwaitingCheck form,
      [Fetch (PostCheckSeats (field_text (schedule_id_value form)) (selectedSeats h))])"
  by (simp add: handleFormSubmission_start_def set_size_def)

lemma check_settle_ok:
  "ok st \<Longrightarrow> checkSpecificSeats_settle None (Response st (Json chk)) = (Some chk, [])"
  by (simp add: checkSpecificSeats_settle_def run_callback_def)

lemma checked_unavailable:
  "ok st \<Longrightarrow> \<not> all_available chk \<Longrightarrow>
   handleFormSubmission_checked h form (Response st (Json chk)) =
     (h, Finished,
      Alert (''Seats '' @ join '', '' (map number_text (unavailable_seats chk))
             @ '' are no longer available. Please select different seats.'')
      # refreshSeatDisplay h)"
  by (simp add: handleFormSubmission_checked_def check_settle_ok)

lemma refresh_no_booking: "\<forall>e \<in> set (refreshSeatDisplay h). \<not> is_booking_call e"
  by (simp add: refreshSeatDisplay_def)

lemma checked_available:
  "ok st \<Longrightarrow> all_available chk \<Longrightarrow> \<not> bookingInProgress (bookingManager h) \<Longrightarrow>
   handleFormSubmission_checked h form (Response st (Json chk)) =
     (h\<lparr>bookingManager := (bookingManager h)\<lparr>bookingInProgress := True\<rparr>\<rparr>,
      AwaitingBooking (booking_request form (selectedSeats h)),
      [Fetch (PostBookSeats (booking_request form (selectedSeats h)))])"
  by (simp add: handleFormSubmission_checked_def check_settle_ok bookSeats_begin_idle Let_def)


lemma booked_success:
  "ok st \<Longrightarrow> success result \<Longrightarrow>
   handleFormSubmission_booked h bd (Response st (Json result)) =
     (h\<lparr>bookingManager := (bookingManager h)
          \<lparr>availabilityCache := AList.delete (KeyNum (schedule_id bd)) (availabilityCache (bookingManager h)),
           bookingInProgress := False\<rparr>\<rparr>,
      [Navigate (''/payment/'' @ number_text (booking_id result) @ ''/'')])"
  by (simp add: handleFormSubmission_booked_def bookSeats_settle_def bookSeats_try_def
        run_callback_def)

lemma string_of_nat_42: "string_of_nat 42 = ''42''"
  by (simp add: string_of_nat.simps digit_char_def)

lemma parseInt_12: "parseInt ''12'' = Some 12"
  by (simp add: parseInt_def split_sign_def is_space_def is_digit_def digits_value_def signed_def)

text \<open>
  C2, as the code has it. When the form is complete, seats are selected and the check
  before the booking answers that not all seats are available, the submission ends
  there: the handler is unchanged, and its effects are exactly the check request for the
  selected seats, the alert that lists the \<open>unavailable_seats\<close> of the answer, and what
  \<open>refreshSeatDisplay\<close> does, which is the availability request when the container
  holds a schedule id and nothing when it holds none. No booking request is among them.
\<close>

theorem unavailable_seats_abort_submission:
  "\<not> falsy (schedule_id_value form) \<and> \<not> falsy (name_value form) \<and> \<not> falsy (email_value form)
   \<and> \<not> falsy (phone_value form) \<and> selectedSeats h \<noteq> [] \<and> ok st \<and> \<not> all_available chk
   \<longrightarrow>
   handleFormSubmission h form (Response st (Json chk)) book_outcome =
     (h, [Fetch (PostCheckSeats (field_text (schedule_id_value form)) (selectedSeats h)),
          Alert (''Seats '' @ join '', '' (map number_text (unavailable_seats chk))
                 @ '' are no longer available. Please select different seats.'')]
         @ (if falsy (container_schedule_id h) then []
            else [Fetch (GetSeatAvailability (field_text (container_schedule_id h)))]))
   \<and> (\<forall>e \<in> set (snd (handleFormSubmission h form (Response st (Json chk)) book_outcome)).
         \<not> is_booking_call e)"
proof (intro impI, elim conjE)
  assume a: "\<not> falsy (schedule_id_value form)" "\<not> falsy (name_value form)"
    "\<not> falsy (email_value form)" "\<not> falsy (phone_value form)" "selectedSeats h \<noteq> []"
    and b: "ok st" "\<not> all_available chk"
  have run: "handleFormSubmission h form (Response st (Json chk)) book_outcome =
     (h, [Fetch (PostCheckSeats (field_text (schedule_id_value form)) (selectedSeats h)),
          Alert (''Seats '' @ join '', '' (map number_text (unavailable_seats chk))
                 @ '' are no longer available. Please select different seats.'')]
         @ refreshSeatDisplay h)"
    by (simp add: handleFormSubmission_def start_valid [OF a] checked_unavailable [OF b])
  have calls: "\<forall>e \<in> set (snd (handleFormSubmission h form (Response st (Json chk)) book_outcome)).
         \<not> is_booking_call e"
    using refresh_no_booking [of h] by (simp add: run)
  have "refreshSeatDisplay h =
          (if falsy (container_schedule_id h) then []
           else [Fetch (GetSeatAvailability (field_text (container_schedule_id h)))])"
    by (simp add: refreshSeatDisplay_def)
  with run calls show "handleFormSubmission h form (Response st (Json chk)) book_outcome =
     (h, [Fetch (PostCheckSeats (field_text (schedule_id_value form)) (selectedSeats h)),
          Alert (''Seats '' @ join '', '' (map number_text (unavailable_seats chk))
                 @ '' are no longer available. Please select different seats.'')]
         @ (if falsy (container_schedule_id h) then []
            else [Fetch (GetSeatAvailability (field_text (container_schedule_id h)))]))
   \<and> (\<forall>e \<in> set (snd (handleFormSubmission h form (Response st (Json chk)) book_outcome)).
         \<not> is_booking_call e)"
    by simp
qed

theorem unavailable_seats_abort_submission_witness:
  "handleFormSubmission
      \<lparr>maxSeats = 4, selectedSeats = [3, 5], bookingManager = SeatBookingManager_new,
       display = None, container_schedule_id = Some ''12''\<rparr>
      \<lparr>schedule_id_value = Some ''12'', name_value = Some ''Ann'',
       email_value = Some ''ann@example.org'', phone_value = Some ''555''\<rparr>
      (Response 200 (Json \<lparr>all_available = False, unavailable_seats = [5]\<rparr>))
      (Response 200 (Json \<lparr>success = True, booking_id = 42, error = None\<rparr>)) =
     (\<lparr>maxSeats = 4, selectedSeats = [3, 5], bookingManager = SeatBookingManager_new,
       display = None, container_schedule_id = Some ''12''\<rparr>,
      [Fetch (PostCheckSeats ''12'' [3, 5]),
       Alert ''Seats 5 are no longer available. Please select different seats.'',
       Fetch (GetSeatAvailability ''12'')])"
  using unavailable_seats_abort_submission
    [where h = "\<lparr>maxSeats = 4, selectedSeats = [3, 5], bookingManager = SeatBookingManager_new,
                  display = None, container_schedule_id = Some ''12''\<rparr>"
       and form = "\<lparr>schedule_id_value = Some ''12'', name_value = Some ''Ann'',
                     email_value = Some ''ann@example.org'', phone_value = Some ''555''\<rparr>"
       and st = 200
       and chk = "\<lparr>all_available = False, unavailable_seats = [5]\<rparr>"
       and book_outcome = "Response 200 (Json \<lparr>success = True, booking_id = 42, error = None\<rparr>)"]
  by (simp add: falsy_def field_text_def ok_def number_text_def string_of_nat.simps digit_char_def)

text \<open>
  C2, as the claim words it, fails on a page whose \<open>schedule_id\<close> field lies in the
  form but outside the seat container: the submission is aborted with the check request
  and the alert, and no request refreshes the seat display.
\<close>

theorem refresh_without_container_id_counterexample:
  "handleFormSubmission
      \<lparr>maxSeats = 4, selectedSeats = [3, 5], bookingManager = SeatBookingManager_new,
       display = None, container_schedule_id = None\<rparr>
      \<lparr>schedule_id_value = Some ''12'', name_value = Some ''Ann'',
       email_value = Some ''ann@example.org'', phone_value = Some ''555''\<rparr>
      (Response 200 (Json \<lparr>all_available = False, unavailable_seats = [5]\<rparr>))
      (Response 200 (Json \<lparr>success = True, booking_id = 42, error = None\<rparr>)) =
     (\<lparr>maxSeats = 4, selectedSeats = [3, 5], bookingManager = SeatBookingManager_new,
       display = None, container_schedule_id = None\<rparr>,
      [Fetch (PostCheckSeats ''12'' [3, 5]),
       Alert ''Seats 5 are no longer available. Please select different seats.''])"
  by (simp add: handleFormSubmission_def handleFormSubmission_start_def
        handleFormSubmission_checked_def checkSpecificSeats_settle_def run_callback_def
        refreshSeatDisplay_def falsy_def field_text_def set_size_def ok_def
        number_text_def string_of_nat.simps digit_char_def)

text \<open>
  C6, as the code has it. When the check passes and the booking answers with
  \<open>success\<close>, the effects of the submission are the check request, the booking request
  and the navigation to \<open>/payment/<booking_id>/\<close> with the id of the answer; the
  selection of the handler is left as it was, and the booking flag is down again.
\<close>

theorem booking_success_navigates:
  "\<not> falsy (schedule_id_value form) \<and> \<not> falsy (name_value form) \<and> \<not> falsy (email_value form)
   \<and> \<not> falsy (phone_value form) \<and> selectedSeats h \<noteq> []
   \<and> \<not> bookingInProgress (bookingManager h)
   \<and> ok st \<and> all_available chk \<and> ok st' \<and> success result
   \<longrightarrow>
   snd (handleFormSubmission h form (Response st (Json chk)) (Response st' (Json result))) =
     [Fetch (PostCheckSeats (field_text (schedule_id_value form)) (selectedSeats h)),
      Fetch (PostBookSeats
               \<lparr>schedule_id = parseInt (field_text (schedule_id_value form)),
                passenger_name = field_text (name_value form),
                passenger_email = field_text (email_value form),
                passenger_phone = field_text (phone_value form),
                seat_numbers = selectedSeats h\<rparr>),
      Navigate (''/payment/'' @ number_text (booking_id result) @ ''/'')]
   \<and> selectedSeats (fst (handleFormSubmission h form (Response st (Json chk))
                              (Response st' (Json result)))) = selectedSeats h
   \<and> \<not> bookingInProgress (bookingManager (fst (handleFormSubmission h form
                              (Response st (Json chk)) (Response st' (Json result)))))"
proof (intro impI, elim conjE)
  assume a: "\<not> falsy (schedule_id_value form)" "\<not> falsy (name_value form)"
    "\<not> falsy (email_value form)" "\<not> falsy (phone_value form)" "selectedSeats h \<noteq> []"
    and idle: "\<not> bookingInProgress (bookingManager h)"
    and c: "ok st" "all_available chk" and b: "ok st'" "success result"
  show "snd (handleFormSubmission h form (Response st (Json chk)) (Response st' (Json result))) =
     [Fetch (PostCheckSeats (field_text (schedule_id_value form)) (selectedSeats h)),
      Fetch (PostBookSeats
               \<lparr>schedule_id = parseInt (field_text (schedule_id_value form)),
                passenger_name = field_text (name_value form),
                passenger_email = field_text (email_value form),
                passenger_phone = field_text (phone_value form),
                seat_numbers = selectedSeats h\<rparr>),
      Navigate (''/payment/'' @ number_text (booking_id result) @ ''/'')]
   \<and> selectedSeats (fst (handleFormSubmission h form (Response st (Json chk))
                              (Response st' (Json result)))) = selectedSeats h
   \<and> \<not> bookingInProgress (bookingManager (fst (handleFormSubmission h form
                              (Response st (Json chk)) (Response st' (Json result)))))"
    by (simp add: handleFormSubmission_def start_valid [OF a] checked_available [OF c idle]
          booked_success [OF b] booking_request_def)
qed

theorem booking_success_navigates_witness:
  "snd (handleFormSubmission
      \<lparr>maxSeats = 4, selectedSeats = [3, 5], bookingManager = SeatBookingManager_new,
       display = None, container_schedule_id = Some ''12''\<rparr>
      \<lparr>schedule_id_value = Some ''12'', name_value = Some ''Ann'',
       email_value = Some ''ann@example.org'', phone_value = Some ''555''\<rparr>
      (Response 200 (Json \<lparr>all_available = True, unavailable_seats = []\<rparr>))
      (Response 200 (Json \<lparr>success = True, booking_id = 42, error = None\<rparr>))) =
     [Fetch (PostCheckSeats ''12'' [3, 5]),
      Fetch (PostBookSeats \<lparr>schedule_id = Some 12, passenger_name = ''Ann'',
               passenger_email = ''ann@example.org'', passenger_phone = ''555'',
               seat_numbers = [3, 5]\<rparr>),
      Navigate ''/payment/42/'']"
  using booking_success_navigates
    [where h = "\<lparr>maxSeats = 4, selectedSeats = [3, 5], bookingManager = SeatBookingManager_new,
                  display = None, container_schedule_id = Some ''12''\<rparr>"
       and form = "\<lparr>schedule_id_value = Some ''12'', name_value = Some ''Ann'',
                     email_value = Some ''ann@example.org'', phone_value = Some ''555''\<rparr>"
       and st = 200 and st' = 200
       and chk = "\<lparr>all_available = True, unavailable_seats = []\<rparr>"
       and result = "\<lparr>success = True, booking_id = 42, error = None\<rparr>"]
  by (simp add: SeatBookingManager_new_def falsy_def field_text_def ok_def parseInt_12
        number_text_def string_of_nat_42)

text \<open>
  C6, as the claim words it, fails: after a successful booking of the seats 3 and 5 the
  handler still holds both, while the navigation to the payment page has been signalled.
\<close>

theorem selection_not_cleared_counterexample:
  "selectedSeats (fst (handleFormSubmission
      \<lparr>maxSeats = 4, selectedSeats = [3, 5], bookingManager = SeatBookingManager_new,
       display = None, container_schedule_id = Some ''12''\<rparr>
      \<lparr>schedule_id_value = Some ''12'', name_value = Some ''Ann'',
       email_value = Some ''ann@example.org'', phone_value = Some ''555''\<rparr>
      (Response 200 (Json \<lparr>all_available = True, unavailable_seats = []\<rparr>))
      (Response 200 (Json \<lparr>success = True, booking_id = 42, error = None\<rparr>)))) = [3, 5]
   \<and> snd (handleFormSubmission
      \<lparr>maxSeats = 4, selectedSeats = [3, 5], bookingManager = SeatBookingManager_new,
       display = None, container_schedule_id = Some ''12''\<rparr>
      \<lparr>schedule_id_value = Some ''12'', name_value = Some ''Ann'',
       email_value = Some ''ann@example.org'', phone_value = Some ''555''\<rparr>
      (Response 200 (Json \<lparr>all_available = True, unavailable_seats = []\<rparr>))
      (Response 200 (Json \<lparr>success = True, booking_id = 42, error = None\<rparr>))) =
     [Fetch (PostCheckSeats ''12'' [3, 5]),
      Fetch (PostBookSeats \<lparr>schedule_id = Some 12, passenger_name = ''Ann'',
               passenger_email = ''ann@example.org'', passenger_phone = ''555'',
               seat_numbers = [3, 5]\<rparr>),
      Navigate ''/payment/42/'']"
  by (simp add: handleFormSubmission_def handleFormSubmission_start_def
        handleFormSubmission_checked_def handleFormSubmission_booked_def
        checkSpecificSeats_settle_def run_callback_def bookSeats_begin_def bookSeats_settle_def
        bookSeats_try_def SeatBookingManager_new_def falsy_def field_text_def set_size_def ok_def
        booking_request_def parseInt_12 number_text_def string_of_nat_42 Let_def)

section \<open>One booking in flight\<close>




















section \<open>Properties of the seat selections\<close>

lemma fetchSeatStatus_held: "heldSeats (fst (fetchSeatStatus m now nodes oc)) = heldSeats m"
  by (simp add: fetchSeatStatus_def Let_def split: outcome.splits body.splits)

lemma selectSeat_held:
  "heldSeats (fst (selectSeat m now nodes n oc so)) =
     (if reports_success oc then set_add n (heldSeats m) else heldSeats m)"
proof (cases oc)
  case (NetworkError msg)
  then show ?thesis by (simp add: selectSeat_def)
next
  case (Response st b)
  show ?thesis
  proof (cases b)
    case (BadJson msg)
    with Response show ?thesis by (simp add: selectSeat_def)
  next
    case (Json d)
    with Response show ?thesis
      using fetchSeatStatus_held [of "m\<lparr>heldSeats := set_add n (heldSeats m)\<rparr>" now nodes so]
      by (simp add: selectSeat_def case_prod_beta Let_def)
  qed
qed

lemma deselectSeat_held:
  "heldSeats (fst (deselectSeat m now nodes n oc so)) =
     (if reports_success oc then set_delete n (heldSeats m) else heldSeats m)"
proof (cases oc)
  case (NetworkError msg)
  then show ?thesis by (simp add: deselectSeat_def)
next
  case (Response st b)
  show ?thesis
  proof (cases b)
    case (BadJson msg)
    with Response show ?thesis by (simp add: deselectSeat_def)
  next
    case (Json d)
    with Response show ?thesis
      using fetchSeatStatus_held [of "m\<lparr>heldSeats := set_delete n (heldSeats m)\<rparr>" now nodes so]
      by (simp add: deselectSeat_def case_prod_beta Let_def)
  qed
qed

lemma selectSeat_request:
  "\<exists>evs. snd (snd (selectSeat m now nodes n oc so)) = Fetch (PostSelectSeat (scheduleId m) n) # evs"
  by (simp add: selectSeat_def case_prod_beta Let_def split: outcome.splits body.splits)

lemma toggleSeat_deselect:
  "set_has (dataset_seat el) (selectedSeats h) \<Longrightarrow>
     selectedSeats (fst (toggleSeat h el)) = set_delete (dataset_seat el) (selectedSeats h)
     \<and> snd (snd (toggleSeat h el)) = []"
  by (simp add: toggleSeat_def updateSelectionDisplay_def Let_def split: option.splits)

lemma updateSelectionDisplay_fields:
  "selectedSeats (updateSelectionDisplay h) = selectedSeats h"
  "maxSeats (updateSelectionDisplay h) = maxSeats h"
  by (simp_all add: updateSelectionDisplay_def Let_def split: option.splits)

lemma toggleSeat_maxSeats: "maxSeats (fst (toggleSeat h el)) = maxSeats h"
  by (simp add: toggleSeat_def Let_def updateSelectionDisplay_fields)

lemma toggleSeat_bound:
  assumes b: "set_size (selectedSeats h) \<le> maxSeats h"
  shows "set_size (selectedSeats (fst (toggleSeat h el))) \<le> maxSeats h"
proof (cases "set_has (dataset_seat el) (selectedSeats h)")
  case True
  have "set_size (set_delete (dataset_seat el) (selectedSeats h)) \<le> set_size (selectedSeats h)"
    unfolding set_size_def set_delete_def by simp
  with b True show ?thesis
    by (simp add: toggleSeat_def updateSelectionDisplay_fields)
next
  case False
  show ?thesis
  proof (cases "maxSeats h \<le> set_size (selectedSeats h)")
    case True
    with False b show ?thesis by (simp add: toggleSeat_def)
  next
    case small: False
    have "set_size (set_add (dataset_seat el) (selectedSeats h)) \<le> set_size (selectedSeats h) + 1"
      unfolding set_size_def set_add_def by simp
    with small False show ?thesis
      by (simp add: toggleSeat_def updateSelectionDisplay_fields)
  qed
qed

lemma toggle_all_bound:
  "set_size (selectedSeats h) \<le> maxSeats h \<Longrightarrow>
   set_size (selectedSeats (toggle_all h els)) \<le> maxSeats h
   \<and> maxSeats (toggle_all h els) = maxSeats h"
proof (induction els arbitrary: h)
  case Nil
  then show ?case by (simp add: toggle_all_def)
next
  case (Cons el els)
  have "set_size (selectedSeats (fst (toggleSeat h el))) \<le> maxSeats (fst (toggleSeat h el))"
    using toggleSeat_bound [OF Cons.prems, of el] by (simp add: toggleSeat_maxSeats)
  from Cons.IH [OF this] show ?case
    by (simp add: toggle_all_def toggleSeat_maxSeats)
qed

lemma toggleSeat_rejected:
  "\<not> set_has (dataset_seat el) (selectedSeats h) \<Longrightarrow> maxSeats h \<le> set_size (selectedSeats h) \<Longrightarrow>
   toggleSeat h el =
     (h, el, [Alert (''You can only select up to '' @ number_text (maxSeats h) @ '' seats.'')])"
  by (simp add: toggleSeat_def)

lemma toggleSeat_no_fetch: "\<forall>e \<in> set (snd (snd (toggleSeat h el))). \<not> is_fetch e"
  by (simp add: toggleSeat_def Let_def)

lemma new_handler_fields:
  "selectedSeats (SeatSelectionHandler_new d c k) = []"
  "maxSeats (SeatSelectionHandler_new d c None) = 4"
  "maxSeats (SeatSelectionHandler_new d c (Some n)) = n"
  by (simp_all add: SeatSelectionHandler_new_def updateSelectionDisplay_fields)

lemma string_of_nat_4: "string_of_nat 4 = ''4''"
  by (simp add: string_of_nat.simps digit_char_def)

text \<open>
  C4. When \<open>selectSeat\<close> is called for a seat that is not in the manager's selection,
  the seat is in the selection afterwards exactly when the server confirmed the request.
  When it did not (it reported a failure, the body did not parse, or the request
  failed), the selection is unchanged; when it did, the seat is appended.
\<close>

theorem selectSeat_adds_only_on_success:
  "\<not> set_has n (heldSeats m) \<longrightarrow>
     (set_has n (heldSeats (fst (selectSeat m now nodes n oc so))) \<longleftrightarrow> reports_success oc)
     \<and> (\<not> reports_success oc \<longrightarrow>
          heldSeats (fst (selectSeat m now nodes n oc so)) = heldSeats m)
     \<and> (reports_success oc \<longrightarrow>
          heldSeats (fst (selectSeat m now nodes n oc so)) = heldSeats m @ [n])"
  by (simp add: selectSeat_held set_has_def set_add_def)

theorem selectSeat_adds_only_on_success_witness:
  "\<not> set_has 5 (heldSeats ((RealTimeSeatManager_new ''12'' ''7'')\<lparr>heldSeats := [3]\<rparr>))
   \<and> heldSeats (fst (selectSeat ((RealTimeSeatManager_new ''12'' ''7'')\<lparr>heldSeats := [3]\<rparr>) 0 [] 5
        (Response 200 (Json \<lparr>hold_success = False, hold_error = Some ''Seat is taken'',
                              hold_message = None\<rparr>))
        (NetworkError ''Failed to fetch''))) = [3]
   \<and> heldSeats (fst (selectSeat ((RealTimeSeatManager_new ''12'' ''7'')\<lparr>heldSeats := [3]\<rparr>) 0 [] 5
        confirmed (NetworkError ''Failed to fetch''))) = [3, 5]"
  using selectSeat_adds_only_on_success
    [where m = "(RealTimeSeatManager_new ''12'' ''7'')\<lparr>heldSeats := [3]\<rparr>" and n = 5
       and now = 0 and nodes = "[]"
       and oc = "Response 200 (Json \<lparr>hold_success = False, hold_error = Some ''Seat is taken'',
                                       hold_message = None\<rparr>)"
       and so = "NetworkError ''Failed to fetch''"]
    selectSeat_adds_only_on_success
    [where m = "(RealTimeSeatManager_new ''12'' ''7'')\<lparr>heldSeats := [3]\<rparr>" and n = 5
       and now = 0 and nodes = "[]" and oc = confirmed
       and so = "NetworkError ''Failed to fetch''"]
  by (simp add: RealTimeSeatManager_new_def set_has_def confirmed_def)

text \<open>
  C5, as the code has it. \<open>deselectSeat\<close> of the seat manager removes the seat from
  the manager's selection when the server confirms the request, and leaves the selection
  unchanged otherwise. \<open>toggleSeat\<close> of the booking form, clicked on a selected seat,
  removes the seat from the form's selection at once and has no other effect: it sends
  no request.
\<close>

theorem deselectSeat_removes_only_on_confirmation:
  "(reports_success oc \<longrightarrow>
      heldSeats (fst (deselectSeat m now nodes n oc so)) = set_delete n (heldSeats m)
      \<and> \<not> set_has n (heldSeats (fst (deselectSeat m now nodes n oc so))))
   \<and> (\<not> reports_success oc \<longrightarrow>
        heldSeats (fst (deselectSeat m now nodes n oc so)) = heldSeats m)
   \<and> (set_has (dataset_seat el) (selectedSeats h) \<longrightarrow>
        selectedSeats (fst (toggleSeat h el)) = set_delete (dataset_seat el) (selectedSeats h)
        \<and> snd (snd (toggleSeat h el)) = [])"
  using toggleSeat_deselect [of el h]
  by (simp add: deselectSeat_held set_has_def set_delete_def)

theorem deselectSeat_removes_only_on_confirmation_witness:
  "heldSeats (fst (deselectSeat ((RealTimeSeatManager_new ''12'' ''7'')\<lparr>heldSeats := [3, 5]\<rparr>)
        0 [] 3 confirmed (NetworkError ''Failed to fetch''))) = [5]
   \<and> heldSeats (fst (deselectSeat ((RealTimeSeatManager_new ''12'' ''7'')\<lparr>heldSeats := [3, 5]\<rparr>)
        0 [] 3 (Response 500 (BadJson ''Unexpected token'')) (NetworkError ''Failed to fetch'')))
       = [3, 5]
   \<and> selectedSeats (fst (toggleSeat
        \<lparr>maxSeats = 4, selectedSeats = [3, 5], bookingManager = SeatBookingManager_new,
         display = None, container_schedule_id = Some ''12''\<rparr>
        \<lparr>dataset_seat = 3, element_classList = [''seat'', ''selected'']\<rparr>)) = [5]"
  using deselectSeat_removes_only_on_confirmation
    [where m = "(RealTimeSeatManager_new ''12'' ''7'')\<lparr>heldSeats := [3, 5]\<rparr>" and n = 3
       and now = 0 and nodes = "[]" and oc = confirmed and so = "NetworkError ''Failed to fetch''"
       and h = "\<lparr>maxSeats = 4, selectedSeats = [3, 5], bookingManager = SeatBookingManager_new,
                  display = None, container_schedule_id = Some ''12''\<rparr>"
       and el = "\<lparr>dataset_seat = 3, element_classList = [''seat'', ''selected'']\<rparr>"]
    deselectSeat_removes_only_on_confirmation
    [where m = "(RealTimeSeatManager_new ''12'' ''7'')\<lparr>heldSeats := [3, 5]\<rparr>" and n = 3
       and now = 0 and nodes = "[]" and oc = "Response 500 (BadJson ''Unexpected token'')"
       and so = "NetworkError ''Failed to fetch''"
       and h = "\<lparr>maxSeats = 4, selectedSeats = [3, 5], bookingManager = SeatBookingManager_new,
                  display = None, container_schedule_id = Some ''12''\<rparr>"
       and el = "\<lparr>dataset_seat = 3, element_classList = [''seat'', ''selected'']\<rparr>"]
  by (simp add: RealTimeSeatManager_new_def set_has_def set_delete_def confirmed_def)

text \<open>
  C5, as the claim words it for every deselect operation, fails for the click on a
  selected seat of the booking form: seat 3 leaves the selection and no request has
  been sent that a server could confirm.
\<close>

theorem toggleSeat_local_deselect_counterexample:
  "toggleSeat
     \<lparr>maxSeats = 4, selectedSeats = [3, 5], bookingManager = SeatBookingManager_new,
      display = None, container_schedule_id = Some ''12''\<rparr>
     \<lparr>dataset_seat = 3, element_classList = [''seat'', ''selected'']\<rparr>
   = (\<lparr>maxSeats = 4, selectedSeats = [5], bookingManager = SeatBookingManager_new,
       display = None, container_schedule_id = Some ''12''\<rparr>,
      \<lparr>dataset_seat = 3, element_classList = [''seat'']\<rparr>,
      [])"
  by (simp add: toggleSeat_def updateSelectionDisplay_def set_has_def set_delete_def)

text \<open>
  C1, as the code has it. In the booking form, every sequence of clicks that starts
  with at most \<open>maxSeats\<close> selected seats (as the constructor's empty selection does,
  for the default limit of 4 and for any limit that is not negative) keeps the selection
  at \<open>maxSeats\<close> seats or fewer; a click on an unselected seat when the selection is
  full is rejected with an alert and changes nothing; and no click sends a request. The
  seat manager, whose selections the server confirms, has no limit: \<open>selectSeat\<close>
  always sends its request first and adds the seat whenever the server confirms.
\<close>

theorem toggleSeat_respects_maxSeats:
  "(set_size (selectedSeats h) \<le> maxSeats h \<longrightarrow>
      set_size (selectedSeats (toggle_all h els)) \<le> maxSeats h)
   \<and> set_size (selectedSeats (toggle_all (SeatSelectionHandler_new d c None) els)) \<le> 4
   \<and> (0 \<le> k \<longrightarrow>
        set_size (selectedSeats (toggle_all (SeatSelectionHandler_new d c (Some k)) els)) \<le> k)
   \<and> (\<not> set_has (dataset_seat el) (selectedSeats h) \<and> maxSeats h \<le> set_size (selectedSeats h) \<longrightarrow>
        toggleSeat h el =
          (h, el, [Alert (''You can only select up to '' @ number_text (maxSeats h) @ '' seats.'')]))
   \<and> (\<forall>e \<in> set (snd (snd (toggleSeat h el))). \<not> is_fetch e)
   \<and> (\<exists>evs. snd (snd (selectSeat m now nodes n oc so)) =
               Fetch (PostSelectSeat (scheduleId m) n) # evs)
   \<and> (reports_success oc \<longrightarrow>
        heldSeats (fst (selectSeat m now nodes n oc so)) = set_add n (heldSeats m))"
proof (intro conjI impI)
  show "set_size (selectedSeats (toggle_all h els)) \<le> maxSeats h"
    if "set_size (selectedSeats h) \<le> maxSeats h"
    using toggle_all_bound [OF that] by simp
  show "set_size (selectedSeats (toggle_all (SeatSelectionHandler_new d c None) els)) \<le> 4"
    using toggle_all_bound [of "SeatSelectionHandler_new d c None" els]
    by (simp add: new_handler_fields set_size_def)
  show "set_size (selectedSeats (toggle_all (SeatSelectionHandler_new d c (Some k)) els)) \<le> k"
    if "0 \<le> k"
    using that toggle_all_bound [of "SeatSelectionHandler_new d c (Some k)" els]
    by (simp add: new_handler_fields set_size_def)
  show "toggleSeat h el =
          (h, el, [Alert (''You can only select up to '' @ number_text (maxSeats h) @ '' seats.'')])"
    if "\<not> set_has (dataset_seat el) (selectedSeats h) \<and> maxSeats h \<le> set_size (selectedSeats h)"
    using that by (simp add: toggleSeat_rejected)
  show "\<forall>e \<in> set (snd (snd (toggleSeat h el))). \<not> is_fetch e"
    by (rule toggleSeat_no_fetch)
  show "\<exists>evs. snd (snd (selectSeat m now nodes n oc so)) =
               Fetch (PostSelectSeat (scheduleId m) n) # evs"
    by (rule selectSeat_request)
  show "heldSeats (fst (selectSeat m now nodes n oc so)) = set_add n (heldSeats m)"
    if "reports_success oc"
    using that by (simp add: selectSeat_held)
qed

theorem toggleSeat_respects_maxSeats_witness:
  "set_size (selectedSeats (toggle_all (SeatSelectionHandler_new None (Some ''12'') None)
       [\<lparr>dataset_seat = 1, element_classList = [''seat'']\<rparr>,
        \<lparr>dataset_seat = 2, element_classList = [''seat'']\<rparr>,
        \<lparr>dataset_seat = 3, element_classList = [''seat'']\<rparr>,
        \<lparr>dataset_seat = 4, element_classList = [''seat'']\<rparr>,
        \<lparr>dataset_seat = 5, element_classList = [''seat'']\<rparr>])) \<le> 4
   \<and> toggleSeat
        \<lparr>maxSeats = 4, selectedSeats = [1, 2, 3, 4], bookingManager = SeatBookingManager_new,
         display = None, container_schedule_id = Some ''12''\<rparr>
        \<lparr>dataset_seat = 5, element_classList = [''seat'']\<rparr>
      = (\<lparr>maxSeats = 4, selectedSeats = [1, 2, 3, 4], bookingManager = SeatBookingManager_new,
          display = None, container_schedule_id = Some ''12''\<rparr>,
         \<lparr>dataset_seat = 5, element_classList = [''seat'']\<rparr>,
         [Alert ''You can only select up to 4 seats.''])"
  using toggleSeat_respects_maxSeats
    [where h = "\<lparr>maxSeats = 4, selectedSeats = [1, 2, 3, 4],
                  bookingManager = SeatBookingManager_new,
                  display = None, container_schedule_id = Some ''12''\<rparr>"
       and el = "\<lparr>dataset_seat = 5, element_classList = [''seat'']\<rparr>"
       and d = None and c = "Some ''12''" and k = 4
       and oc = confirmed
       and els = "[\<lparr>dataset_seat = 1, element_classList = [''seat'']\<rparr>,
        \<lparr>dataset_seat = 2, element_classList = [''seat'']\<rparr>,
        \<lparr>dataset_seat = 3, element_classList = [''seat'']\<rparr>,
        \<lparr>dataset_seat = 4, element_classList = [''seat'']\<rparr>,
        \<lparr>dataset_seat = 5, element_classList = [''seat'']\<rparr>]"]
  by (simp add: set_has_def set_size_def number_text_def string_of_nat_4)

text \<open>
  C1, as the claim words it, fails for the selections that the server confirms: five
  confirmed calls of \<open>selectSeat\<close> leave five seats selected, more than the limit of 4
  of the booking form, and the fifth call, made with four seats selected, sends its
  request.
\<close>

theorem selectSeat_unbounded_counterexample:
  "heldSeats (fst (confirmed_run 0
       (Response 200 (Json \<lparr>booked_seats = [], available_seats = [], temporary_selections = []\<rparr>))
       (RealTimeSeatManager_new ''12'' ''7'')
       [Select 1, Select 2, Select 3, Select 4, Select 5])) = [1, 2, 3, 4, 5]
   \<and> maxSeats (SeatSelectionHandler_new None (Some ''12'') None)
       < set_size (heldSeats (fst (confirmed_run 0
           (Response 200 (Json \<lparr>booked_seats = [], available_seats = [], temporary_selections = []\<rparr>))
           (RealTimeSeatManager_new ''12'' ''7'')
           [Select 1, Select 2, Select 3, Select 4, Select 5])))
   \<and> filter is_fetch (snd (snd (selectSeat
         ((RealTimeSeatManager_new ''12'' ''7'')\<lparr>heldSeats := [1, 2, 3, 4]\<rparr>) 0 [] 5 confirmed
         (Response 200 (Json \<lparr>booked_seats = [], available_seats = [], temporary_selections = []\<rparr>)))))
       = [Fetch (PostSelectSeat ''12'' 5), Fetch (GetSeatStatus ''12'')]"
  by (simp add: confirmed_run_def confirmed_op_def selectSeat_def fetchSeatStatus_def confirmed_def
        RealTimeSeatManager_new_def SeatSelectionHandler_new_def updateSelectionDisplay_def
        updateSeatDisplay_def set_from_def set_add_def set_size_def ok_def Let_def)

section \<open>Properties of the render pass\<close>

lemma set_set_add: "set (set_add x s) = insert x (set s)"
  by (auto simp: set_add_def)

lemma set_set_delete: "set (set_delete x s) = set s - {x}"
  by (auto simp: set_delete_def)

lemma set_add_classes: "set (add_classes names cl) = set cl \<union> set names"
  unfolding add_classes_def by (induction names arbitrary: cl) (auto simp: set_set_add)

lemma set_remove_classes: "set (remove_classes names cl) = set cl - set names"
  unfolding remove_classes_def by (induction names arbitrary: cl) (auto simp: set_set_delete)

lemma render_booked:
  assumes "set_has (seatNumber node) (bookedSeats m)"
  shows "status (render_seat m now node) = Some ''booked''"
    and "title (render_seat m now node) = ''Booked''"
    and "dataset_userId (render_seat m now node) = None"
    and "dataset_username (render_seat m now node) = None"
    and "set (classList (render_seat m now node)) =
           (set (classList node)
              - {''bg-gray-200'', ''bg-red-400'', ''bg-yellow-400'', ''bg-green-500'', ''text-white'',
                 ''hover:bg-gray-300'', ''cursor-not-allowed'', ''cursor-pointer''})
           \<union> {''bg-red-400'', ''text-white'', ''cursor-not-allowed''}"
  using assms
  by (auto simp: render_seat_def Let_def set_add_classes set_remove_classes)

lemma render_temporary:
  "\<not> set_has (seatNumber node) (bookedSeats m) \<Longrightarrow>
   map_of (tempSelections m) (seatNumber node) = Some sel \<Longrightarrow>
   status (render_seat m now node) = Some ''temporary''"
  by (simp add: render_seat_def Let_def)

lemma render_available:
  "\<not> set_has (seatNumber node) (bookedSeats m) \<Longrightarrow>
   map_of (tempSelections m) (seatNumber node) = None \<Longrightarrow>
   status (render_seat m now node) = Some ''available''"
  by (simp add: render_seat_def Let_def)

lemma click_on_booked:
  "status node = Some ''booked'' \<Longrightarrow> handleSeatClick m now nodes node oc so = (m, nodes, [])"
  by (simp add: handleSeatClick_def)

text \<open>
  C7. In a render pass every seat element is classified with the precedence booked,
  then temporarily held, then available. A seat in the booked set is shown as booked
  whatever the map of temporary selections holds for it: status and title say booked,
  the data of a holder are removed, its classes are those of a booked seat without the
  pointer cursor, and a click on it does nothing. A seat that is not booked is shown as
  temporary when the map has an entry for it and as available when it has none.
\<close>

theorem booked_takes_precedence:
  "i < length nodes \<longrightarrow>
     (let node = nodes ! i; shown = updateSeatDisplay m now nodes ! i in
        (set_has (seatNumber node) (bookedSeats m) \<longrightarrow>
           status shown = Some ''booked'' \<and> title shown = ''Booked''
           \<and> dataset_userId shown = None \<and> dataset_username shown = None
           \<and> ''bg-red-400'' \<in> set (classList shown)
           \<and> ''cursor-not-allowed'' \<in> set (classList shown)
           \<and> ''cursor-pointer'' \<notin> set (classList shown)
           \<and> ''bg-yellow-400'' \<notin> set (classList shown)
           \<and> ''bg-green-500'' \<notin> set (classList shown)
           \<and> handleSeatClick m' now' nodes' shown oc so = (m', nodes', []))
        \<and> (\<not> set_has (seatNumber node) (bookedSeats m)
             \<and> map_of (tempSelections m) (seatNumber node) \<noteq> None \<longrightarrow>
             status shown = Some ''temporary'')
        \<and> (\<not> set_has (seatNumber node) (bookedSeats m)
             \<and> map_of (tempSelections m) (seatNumber node) = None \<longrightarrow>
             status shown = Some ''available''))"
proof
  assume len: "i < length nodes"
  define node where "node = nodes ! i"
  have shown: "updateSeatDisplay m now nodes ! i = render_seat m now node"
    using len by (simp add: updateSeatDisplay_def node_def)
  have booked: "status (render_seat m now node) = Some ''booked''
      \<and> title (render_seat m now node) = ''Booked''
      \<and> dataset_userId (render_seat m now node) = None
      \<and> dataset_username (render_seat m now node) = None
      \<and> ''bg-red-400'' \<in> set (classList (render_seat m now node))
      \<and> ''cursor-not-allowed'' \<in> set (classList (render_seat m now node))
      \<and> ''cursor-pointer'' \<notin> set (classList (render_seat m now node))
      \<and> ''bg-yellow-400'' \<notin> set (classList (render_seat m now node))
      \<and> ''bg-green-500'' \<notin> set (classList (render_seat m now node))
      \<and> handleSeatClick m' now' nodes' (render_seat m now node) oc so = (m', nodes', [])"
    if b: "set_has (seatNumber node) (bookedSeats m)"
    using render_booked [OF b, of now] click_on_booked [of "render_seat m now node" m' now' nodes' oc so]
    by simp
  have temp: "status (render_seat m now node) = Some ''temporary''"
    if "\<not> set_has (seatNumber node) (bookedSeats m)
        \<and> map_of (tempSelections m) (seatNumber node) \<noteq> None"
    using that render_temporary [of node m _ now] by auto
  have avail: "status (render_seat m now node) = Some ''available''"
    if "\<not> set_has (seatNumber node) (bookedSeats m)
        \<and> map_of (tempSelections m) (seatNumber node) = None"
    using that render_available [of node m now] by auto
  show "let node = nodes ! i; shown = updateSeatDisplay m now nodes ! i in
        (set_has (seatNumber node) (bookedSeats m) \<longrightarrow>
           status shown = Some ''booked'' \<and> title shown = ''Booked''
           \<and> dataset_userId shown = None \<and> dataset_username shown = None
           \<and> ''bg-red-400'' \<in> set (classList shown)
           \<and> ''cursor-not-allowed'' \<in> set (classList shown)
           \<and> ''cursor-pointer'' \<notin> set (classList shown)
           \<and> ''bg-yellow-400'' \<notin> set (classList shown)
           \<and> ''bg-green-500'' \<notin> set (classList shown)
           \<and> handleSeatClick m' now' nodes' shown oc so = (m', nodes', []))
        \<and> (\<not> set_has (seatNumber node) (bookedSeats m)
             \<and> map_of (tempSelections m) (seatNumber node) \<noteq> None \<longrightarrow>
             status shown = Some ''temporary'')
        \<and> (\<not> set_has (seatNumber node) (bookedSeats m)
             \<and> map_of (tempSelections m) (seatNumber node) = None \<longrightarrow>
             status shown = Some ''available'')"
    unfolding Let_def shown node_def [symmetric]
    using booked temp avail by blast
qed

theorem booked_takes_precedence_witness:
  "status (updateSeatDisplay
      ((RealTimeSeatManager_new ''12'' ''7'')
         \<lparr>tempSelections := [(3, \<lparr>user_id = 7, username = ''ann'', expires_at = Some 90000\<rparr>)],
          bookedSeats := [3]\<rparr>)
      0
      [\<lparr>seatNumber = 3, classList = [''seat'', ''cursor-pointer''], status = None,
        dataset_userId = None, dataset_username = None, title = []\<rparr>] ! 0) = Some ''booked''
   \<and> handleSeatClick (RealTimeSeatManager_new ''12'' ''7'') 0 []
       (updateSeatDisplay
          ((RealTimeSeatManager_new ''12'' ''7'')
             \<lparr>tempSelections := [(3, \<lparr>user_id = 7, username = ''ann'', expires_at = Some 90000\<rparr>)],
              bookedSeats := [3]\<rparr>)
          0
          [\<lparr>seatNumber = 3, classList = [''seat'', ''cursor-pointer''], status = None,
            dataset_userId = None, dataset_username = None, title = []\<rparr>] ! 0)
       confirmed (NetworkError ''Failed to fetch'')
     = (RealTimeSeatManager_new ''12'' ''7'', [], [])"
  using booked_takes_precedence
    [where i = 0
       and nodes = "[\<lparr>seatNumber = 3, classList = [''seat'', ''cursor-pointer''], status = None,
                      dataset_userId = None, dataset_username = None, title = []\<rparr>]"
       and m = "(RealTimeSeatManager_new ''12'' ''7'')
         \<lparr>tempSelections := [(3, \<lparr>user_id = 7, username = ''ann'', expires_at = Some 90000\<rparr>)],
          bookedSeats := [3]\<rparr>"
       and now = 0 and m' = "RealTimeSeatManager_new ''12'' ''7''" and now' = 0 and nodes' = "[]"
       and oc = confirmed and so = "NetworkError ''Failed to fetch''"]
  by (simp add: Let_def set_has_def RealTimeSeatManager_new_def)

end
